theory Spec2Isabelle
  imports Complex_Main
begin

section \<open>Python strings\<close>

text \<open>
  A message, a product name, a button text and a callback are Python \<open>str\<close> values.
  They are modelled as \<open>string\<close>, one \<open>char\<close> per code point, so the model covers the
  strings whose code points are all below 256 (ASCII and Latin-1, which holds every
  trigger phrase of the source). On these \<open>str.lower\<close> and \<open>str.strip\<close> are the
  functions below and stay inside the range. The fixed response texts of the source
  contain code points above 255, so a response text is a list of code points
  (\<open>ustr\<close>).
\<close>

type_synonym ustr = "int list"

definition u :: "string \<Rightarrow> ustr" where
  "u s = map of_char s"

fun py_startswith :: "'a list \<Rightarrow> 'a list \<Rightarrow> bool" where
  "py_startswith s [] = True"
| "py_startswith [] (p # ps) = False"
| "py_startswith (c # cs) (p # ps) = (c = p \<and> py_startswith cs ps)"

text \<open>\<open>py_in p s\<close> is Python's \<open>p in s\<close> on strings: \<open>p\<close> occurs in \<open>s\<close> as a block.\<close>

fun py_in :: "'a list \<Rightarrow> 'a list \<Rightarrow> bool" where
  "py_in p [] = (p = [])"
| "py_in p (c # cs) = (py_startswith (c # cs) p \<or> py_in p cs)"

definition lower_char :: "char \<Rightarrow> char" where
  "lower_char c =
     (let n = (of_char c :: int)
      in if (65 \<le> n \<and> n \<le> 90) \<or> (192 \<le> n \<and> n \<le> 222 \<and> n \<noteq> 215)
         then char_of (n + 32) else c)"

definition py_lower :: "string \<Rightarrow> string" where
  "py_lower s = map lower_char s"

definition is_space :: "char \<Rightarrow> bool" where
  "is_space c =
     (let n = (of_char c :: int)
      in (9 \<le> n \<and> n \<le> 13) \<or> (28 \<le> n \<and> n \<le> 32) \<or> n = 133 \<or> n = 160)"

definition py_strip :: "string \<Rightarrow> string" where
  "py_strip s = rev (dropWhile is_space (rev (dropWhile is_space s)))"

text \<open>\<open>s.split(c)\<close> for a one-character separator: never empty.\<close>

fun py_split :: "char \<Rightarrow> string \<Rightarrow> string list" where
  "py_split c [] = [[]]"
| "py_split c (x # xs) =
     (let r = py_split c xs
      in if x = c then [] # r else (x # hd r) # tl r)"

subsection \<open>Integers and text\<close>

definition digit_char :: "int \<Rightarrow> char" where
  "digit_char d = char_of (48 + d)"

text \<open>The decimal digits of a non-negative integer.\<close>

function digits10 :: "int \<Rightarrow> string" where
  "digits10 n = (if n < 10 then [digit_char n] else digits10 (n div 10) @ [digit_char (n mod 10)])"
  by pat_completeness auto
termination
  by (relation "measure nat") auto

declare digits10.simps [simp del]

text \<open>\<open>str(i)\<close>, also what an f-string writes for an integer.\<close>

definition py_str :: "int \<Rightarrow> string" where
  "py_str i = (if i < 0 then CHR ''-'' # digits10 (- i) else digits10 i)"

definition is_digit :: "char \<Rightarrow> bool" where
  "is_digit c = (let n = (of_char c :: int) in 48 \<le> n \<and> n \<le> 57)"

definition digit_val :: "char \<Rightarrow> int" where
  "digit_val c = of_char c - 48"

text \<open>
  The digits of an integer literal after its sign, as \<open>int()\<close> reads them in base 10:
  a digit first, then digits, each of which one underscore may precede. \<open>None\<close> is
  the \<open>ValueError\<close>.
\<close>

fun int_digits :: "int \<Rightarrow> string \<Rightarrow> int option" where
  "int_digits acc [] = Some acc"
| "int_digits acc [c] = (if is_digit c then Some (10 * acc + digit_val c) else None)"
| "int_digits acc (c # d # cs) =
     (if is_digit c then int_digits (10 * acc + digit_val c) (d # cs)
      else if c = CHR ''_'' \<and> is_digit d then int_digits acc (d # cs)
      else None)"

definition int_body :: "string \<Rightarrow> int option" where
  "int_body s = (case s of [] \<Rightarrow> None | c # cs \<Rightarrow> if is_digit c then int_digits 0 s else None)"

text \<open>
  \<open>int(s)\<close> on a string: surrounding whitespace is dropped, one sign is allowed.
  (The interpreter's configurable limit on the number of digits is not part of the model.)
\<close>

definition py_int :: "string \<Rightarrow> int option" where
  "py_int s =
     (case py_strip s of
        [] \<Rightarrow> None
      | c # cs \<Rightarrow>
          if c = CHR ''-'' then map_option uminus (int_body cs)
          else if c = CHR ''+'' then int_body cs
          else int_body (c # cs))"

subsection \<open>Floats\<close>

text \<open>
  A price is a Python \<open>float\<close>. The model keeps the finite doubles as the rationals
  they denote: every operation computes the exact rational result and rounds it to the
  nearest double, ties to even (53 significant bits, spacing at least \<open>2 ^ - 1074\<close>).
  Overflow to infinity, NaN and the sign of zero are outside the model.
\<close>

text \<open>The number of binary digits of a positive integer.\<close>

function bitlen :: "int \<Rightarrow> int" where
  "bitlen n = (if n \<le> 0 then 0 else 1 + bitlen (n div 2))"
  by pat_completeness auto
termination
  by (relation "measure nat") auto

declare bitlen.simps [simp del]

text \<open>The integer nearest to \<open>n / d\<close> for \<open>d > 0\<close>, ties to the even one.\<close>

definition round_half_even :: "int \<Rightarrow> int \<Rightarrow> int" where
  "round_half_even n d =
     (let q = n div d; r = n mod d
      in if 2 * r < d then q
         else if 2 * r > d then q + 1
         else if even q then q else q + 1)"

text \<open>The exponent \<open>e\<close> of the unit in the last place of \<open>p / q\<close> (both positive).\<close>

definition ulp_exp :: "int \<Rightarrow> int \<Rightarrow> int" where
  "ulp_exp p q =
     (let k = bitlen p - bitlen q;
          e = (if (if k \<ge> 0 then p \<ge> q * 2 ^ nat k else p * 2 ^ nat (- k) \<ge> q)
               then k - 52 else k - 53)
      in max e (- 1074))"

definition round_pos :: "int \<Rightarrow> int \<Rightarrow> rat" where
  "round_pos p q =
     (let e = ulp_exp p q
      in if e \<ge> 0 then of_int (round_half_even p (q * 2 ^ nat e) * 2 ^ nat e)
         else of_int (round_half_even (p * 2 ^ nat (- e)) q) / of_int (2 ^ nat (- e)))"

definition to_double :: "rat \<Rightarrow> rat" where
  "to_double r =
     (let (p, q) = quotient_of r
      in if p = 0 then 0
         else if p > 0 then round_pos p q
         else - round_pos (- p) q)"

definition fadd :: "rat \<Rightarrow> rat \<Rightarrow> rat" where
  "fadd a b = to_double (a + b)"

definition fmul :: "rat \<Rightarrow> rat \<Rightarrow> rat" where
  "fmul a b = to_double (a * b)"

text \<open>
  \<open>sum(...)\<close> over floats: the additions from left to right, starting at the integer 0.
  (CPython from 3.12 on carries a compensation term through the same loop; for two
  terms the result is the same double.)
\<close>

definition py_sum :: "rat list \<Rightarrow> rat" where
  "py_sum xs = foldl fadd 0 xs"

definition two_digits :: "int \<Rightarrow> string" where
  "two_digits n = [digit_char (n div 10), digit_char (n mod 10)]"

text \<open>
  The format \<open>:.2f\<close>: the exact value rounded to hundredths, ties to even, the integer
  part in decimal, a point, two digits.
\<close>

definition fmt2 :: "rat \<Rightarrow> string" where
  "fmt2 r =
     (let (p, q) = quotient_of r;
          c = round_half_even (\<bar>p\<bar> * 100) q
      in (if r < 0 then ''-'' else '''') @ digits10 (c div 100) @ ''.'' @ two_digits (c mod 100))"

section \<open>Catalog, sessions, responses\<close>

record product =
  p_id :: int
  p_name :: string
  p_price :: rat

definition AVAILABLE_PRODUCTS :: "product list" where
  "AVAILABLE_PRODUCTS =
     [\<lparr>p_id = 1, p_name = ''Laptop'', p_price = to_double (99999 / 100)\<rparr>,
      \<lparr>p_id = 2, p_name = ''Mouse'', p_price = to_double (2999 / 100)\<rparr>,
      \<lparr>p_id = 3, p_name = ''Keyboard'', p_price = to_double (7999 / 100)\<rparr>,
      \<lparr>p_id = 4, p_name = ''Monitor'', p_price = to_double (29999 / 100)\<rparr>]"

text \<open>
  No code path writes to a product dictionary, so a product is a value here:
  \<open>product.copy()\<close> and the reference kept in \<open>last_product\<close> are the product's fields.
\<close>

record session =
  cart :: "product list"
  last_product :: "product option"
  state :: string

text \<open>\<open>self.sessions\<close>: the only field of a \<open>ChatBot\<close>.\<close>

type_synonym chatbot = "string \<rightharpoonup> session"

definition init :: chatbot where
  "init = Map.empty"

record button =
  btn_text :: string
  callback :: string

text \<open>The returned dictionary; \<open>buttons = None\<close> when it has no key \<open>"buttons"\<close>.\<close>

record reply =
  response :: ustr
  buttons :: "button list option"

definition new_session :: session where
  "new_session = \<lparr>cart = [], last_product = None, state = ''browsing''\<rparr>"

definition get_or_create_session :: "string \<Rightarrow> chatbot \<Rightarrow> session \<times> chatbot" where
  "get_or_create_session user_id b =
     (case b user_id of
        None \<Rightarrow> (new_session, b(user_id \<mapsto> new_session))
      | Some s \<Rightarrow> (s, b))"

section \<open>Intent predicates\<close>

definition add_patterns :: "string list" where
  "add_patterns =
     [''agregar al carrito'', ''add to cart'', ''a'' @ [CHR 0xF1] @ ''adir al carrito'',
      ''agregar'', ''a'' @ [CHR 0xF1] @ ''adir'']"

definition is_add_to_cart_intent :: "string \<Rightarrow> bool" where
  "is_add_to_cart_intent message = list_ex (\<lambda>pattern. py_in pattern message) add_patterns"

definition is_product_search :: "string \<Rightarrow> bool" where
  "is_product_search message =
     list_ex (\<lambda>name. py_in name message) (map (\<lambda>p. py_lower (p_name p)) AVAILABLE_PRODUCTS)"

definition cart_patterns :: "string list" where
  "cart_patterns = [''carrito'', ''cart'', ''ver carrito'', ''view cart'']"

definition is_view_cart_intent :: "string \<Rightarrow> bool" where
  "is_view_cart_intent message = list_ex (\<lambda>pattern. py_in pattern message) cart_patterns"

section \<open>Catalog lookup\<close>

definition find_product_by_id :: "int \<Rightarrow> product option" where
  "find_product_by_id product_id = find (\<lambda>p. p_id p = product_id) AVAILABLE_PRODUCTS"

definition find_product_by_name :: "string \<Rightarrow> product option" where
  "find_product_by_name query =
     find (\<lambda>p. py_in (py_lower (p_name p)) (py_lower query)) AVAILABLE_PRODUCTS"

section \<open>Cart operations\<close>

definition find_last_selected_product :: "string \<Rightarrow> chatbot \<Rightarrow> product option \<times> chatbot" where
  "find_last_selected_product user_id b =
     (let (s, b1) = get_or_create_session user_id b in (last_product s, b1))"

definition no_product_reply :: reply where
  "no_product_reply =
     \<lparr>response = [0x274C] @ u '' No hay producto seleccionado. Por favor, elige un producto primero.'',
      buttons = Some [\<lparr>btn_text = ''Ver productos'', callback = ''btn_browse''\<rparr>]\<rparr>"

definition added_reply :: "product \<Rightarrow> reply" where
  "added_reply p =
     \<lparr>response = [0x2705] @ u '' '' @ u (p_name p) @ u '' agregado al carrito correctamente!'',
      buttons = Some [\<lparr>btn_text = ''Ver carrito'', callback = ''btn_view_cart''\<rparr>,
                      \<lparr>btn_text = ''Continuar comprando'', callback = ''btn_browse''\<rparr>]\<rparr>"

text \<open>
  \<open>if product_id:\<close> is Python truthiness: \<open>None\<close> and \<open>0\<close> both take the \<open>else\<close>
  branch. The \<open>try\<close> body (a list append and a dictionary store) cannot raise, so the
  \<open>except\<close> branch has no counterpart.
\<close>

definition add_product_to_cart :: "string \<Rightarrow> int option \<Rightarrow> chatbot \<Rightarrow> reply \<times> chatbot" where
  "add_product_to_cart user_id product_id b =
     (let (s, b1) = get_or_create_session user_id b;
          (product, b2) =
            (case product_id of
               Some i \<Rightarrow> if i \<noteq> 0 then (find_product_by_id i, b1)
                         else find_last_selected_product user_id b1
             | None \<Rightarrow> find_last_selected_product user_id b1)
      in case product of
           None \<Rightarrow> (no_product_reply, b2)
         | Some p \<Rightarrow>
             (added_reply p,
              b2(user_id \<mapsto> s\<lparr>cart := cart s @ [p], last_product := Some p\<rparr>)))"

text \<open>
  The dictionary \<open>item_counts\<close>, in insertion order: name, first item of that name, count.
\<close>

fun count_item :: "(string \<times> product \<times> nat) list \<Rightarrow> product \<Rightarrow> (string \<times> product \<times> nat) list" where
  "count_item [] item = [(p_name item, item, 1)]"
| "count_item ((n, it, c) # rest) item =
     (if n = p_name item then (n, it, c + 1) # rest else (n, it, c) # count_item rest item)"

definition item_counts :: "product list \<Rightarrow> (string \<times> product \<times> nat) list" where
  "item_counts crt = foldl count_item [] crt"

definition item_line :: "string \<times> product \<times> nat \<Rightarrow> ustr" where
  "item_line e =
     (case e of (name, item, count) \<Rightarrow>
        if count > 1
        then [0x2022] @ u '' '' @ u name @ u '' x'' @ u (py_str (int count)) @ u '' - $''
             @ u (fmt2 (fmul (p_price item) (to_double (of_nat count))))
        else [0x2022] @ u '' '' @ u name @ u '' - $'' @ u (fmt2 (p_price item)))"

fun py_join :: "'a list \<Rightarrow> 'a list list \<Rightarrow> 'a list" where
  "py_join sep [] = []"
| "py_join sep [x] = x"
| "py_join sep (x # y # ys) = x @ sep @ py_join sep (y # ys)"

definition empty_cart_reply :: reply where
  "empty_cart_reply =
     \<lparr>response = [0x1F6D2] @ u '' Tu carrito est'' @ [0xE1] @ u '' vac'' @ [0xED] @ u ''o''
                  @ [10, 0xBF] @ u ''Quieres ver nuestros productos?'',
      buttons = Some [\<lparr>btn_text = ''Ver productos'', callback = ''btn_browse''\<rparr>]\<rparr>"

definition cart_buttons :: "button list" where
  "cart_buttons =
     [\<lparr>btn_text = ''Proceder al pago'', callback = ''btn_checkout''\<rparr>,
      \<lparr>btn_text = ''Continuar comprando'', callback = ''btn_browse''\<rparr>,
      \<lparr>btn_text = ''Vaciar carrito'', callback = ''btn_clear_cart''\<rparr>]"

definition send_cart_confirmation_buttons :: "string \<Rightarrow> chatbot \<Rightarrow> reply \<times> chatbot" where
  "send_cart_confirmation_buttons user_id b =
     (let (s, b1) = get_or_create_session user_id b;
          crt = cart s
      in if crt = [] then (empty_cart_reply, b1)
         else
           let total_price = py_sum (map p_price crt);
               item_count = length crt;
               items_text = map item_line (item_counts crt)
           in (\<lparr>response = [0x1F6D2] @ u '' Tu carrito ('' @ u (py_str (int item_count))
                             @ u '' items):'' @ [10] @ py_join [10] items_text
                             @ [10, 10] @ u ''Total: $'' @ u (fmt2 total_price),
                buttons = Some cart_buttons\<rparr>, b1))"

definition handle_product_selection :: "string \<Rightarrow> string \<Rightarrow> chatbot \<Rightarrow> reply \<times> chatbot" where
  "handle_product_selection user_id query b =
     (let (s, b1) = get_or_create_session user_id b
      in case find_product_by_name query of
           Some found_product \<Rightarrow>
             (\<lparr>response = [0x1F4F1] @ u '' '' @ u (p_name found_product) @ u '' - $''
                          @ u (fmt2 (p_price found_product)) @ [10, 0xBF] @ u ''Te interesa?'',
               buttons = Some
                 [\<lparr>btn_text = ''Agregar al carrito'',
                   callback = ''btn_add_'' @ py_str (p_id found_product)\<rparr>,
                  \<lparr>btn_text = ''Ver m'' @ [CHR 0xE1] @ ''s productos'', callback = ''btn_browse''\<rparr>]\<rparr>,
              b1(user_id \<mapsto> s\<lparr>last_product := Some found_product\<rparr>))
         | None \<Rightarrow>
             (\<lparr>response = [0x274C] @ u '' Producto no encontrado. '' @ [0xBF]
                          @ u ''Quieres ver todos los productos disponibles?'',
               buttons = Some [\<lparr>btn_text = ''Ver productos'', callback = ''btn_browse''\<rparr>]\<rparr>,
              b1))"

definition show_products :: "string \<Rightarrow> chatbot \<Rightarrow> reply \<times> chatbot" where
  "show_products user_id b =
     (\<lparr>response = [0x1F3EA] @ u '' Productos disponibles:'' @ [10]
                  @ u ''Haz clic en un producto para agregarlo al carrito:'',
       buttons = Some (map (\<lambda>p. \<lparr>btn_text = p_name p @ '' - $'' @ fmt2 (p_price p),
                                   callback = ''btn_add_'' @ py_str (p_id p)\<rparr>)
                           AVAILABLE_PRODUCTS)\<rparr>, b)"

definition clear_cart :: "string \<Rightarrow> chatbot \<Rightarrow> reply \<times> chatbot" where
  "clear_cart user_id b =
     (let (s, b1) = get_or_create_session user_id b
      in (\<lparr>response = [0x1F6D2] @ u '' Carrito vac'' @ [0xED] @ u ''o correctamente.'',
           buttons = Some [\<lparr>btn_text = ''Ver productos'', callback = ''btn_browse''\<rparr>]\<rparr>,
          b1(user_id \<mapsto> s\<lparr>cart := []\<rparr>)))"

definition checkout_empty_reply :: reply where
  "checkout_empty_reply =
     \<lparr>response = [0x274C] @ u '' No puedes proceder al pago con un carrito vac'' @ [0xED] @ u ''o.'',
      buttons = Some [\<lparr>btn_text = ''Ver productos'', callback = ''btn_browse''\<rparr>]\<rparr>"

definition checkout_done_reply :: "rat \<Rightarrow> reply" where
  "checkout_done_reply total_paid =
     \<lparr>response = [0x2705, 0x20, 0xA1] @ u ''Compra realizada exitosamente!'' @ [10]
                  @ u ''Total pagado: $'' @ u (fmt2 total_paid) @ [10, 0xA1] @ u ''Gracias por tu compra!'',
      buttons = Some [\<lparr>btn_text = ''Comprar m'' @ [CHR 0xE1] @ ''s'', callback = ''btn_browse''\<rparr>]\<rparr>"

definition process_checkout :: "string \<Rightarrow> chatbot \<Rightarrow> reply \<times> chatbot" where
  "process_checkout user_id b =
     (let (s, b1) = get_or_create_session user_id b;
          crt = cart s
      in if crt = [] then (checkout_empty_reply, b1)
         else
           let total_paid = py_sum (map p_price crt)
           in (checkout_done_reply total_paid,
               b1(user_id \<mapsto> s\<lparr>cart := [], last_product := None\<rparr>)))"

section \<open>Dispatcher\<close>

definition button_error_reply :: reply where
  "button_error_reply =
     \<lparr>response = [0x274C] @ u '' Error en el bot'' @ [0xF3] @ u ''n. Intenta de nuevo.'',
      buttons = None\<rparr>"

definition button_unknown_reply :: reply where
  "button_unknown_reply =
     \<lparr>response = [0x274C] @ u '' Bot'' @ [0xF3] @ u ''n no reconocido'', buttons = None\<rparr>"

text \<open>
  \<open>int(...)\<close> raising \<open>ValueError\<close> is the \<open>None\<close> of \<open>py_int\<close>; \<open>split\<close> never
  returns an empty list, so \<open>[-1]\<close> is \<open>last\<close> and no \<open>IndexError\<close> arises.
\<close>

definition handle_button_press :: "string \<Rightarrow> string \<Rightarrow> chatbot \<Rightarrow> reply \<times> chatbot" where
  "handle_button_press user_id button_data b =
     (let (s, b1) = get_or_create_session user_id b
      in if py_startswith button_data ''btn_add_'' then
           (case py_int (last (py_split CHR ''_'' button_data)) of
              Some product_id \<Rightarrow> add_product_to_cart user_id (Some product_id) b1
            | None \<Rightarrow> (button_error_reply, b1))
         else if button_data = ''btn_view_cart'' then send_cart_confirmation_buttons user_id b1
         else if button_data = ''btn_browse'' then show_products user_id b1
         else if button_data = ''btn_clear_cart'' then clear_cart user_id b1
         else if button_data = ''btn_checkout'' then process_checkout user_id b1
         else (button_unknown_reply, b1))"

definition unknown_reply :: reply where
  "unknown_reply =
     \<lparr>response = u ''No entiendo. '' @ [0xBF] @ u ''Puedes ser m'' @ [0xE1] @ u ''s espec''
                  @ [0xED] @ u ''fico?'',
      buttons = None\<rparr>"

definition handle_message :: "string \<Rightarrow> string \<Rightarrow> chatbot \<Rightarrow> reply \<times> chatbot" where
  "handle_message user_id message b =
     (let (s, b1) = get_or_create_session user_id b;
          message_lower = py_strip (py_lower message)
      in if py_startswith message ''btn_'' then handle_button_press user_id message b1
         else if is_add_to_cart_intent message_lower then add_product_to_cart user_id None b1
         else if is_product_search message_lower then handle_product_selection user_id message_lower b1
         else if is_view_cart_intent message_lower then send_cart_confirmation_buttons user_id b1
         else (unknown_reply, b1))"

text \<open>A conversation: the messages of any users, in order, from a state.\<close>

fun run :: "chatbot \<Rightarrow> (string \<times> string) list \<Rightarrow> chatbot" where
  "run b [] = b"
| "run b ((user_id, message) # ms) = run (snd (handle_message user_id message b)) ms"

section \<open>Notions used in the statements\<close>

text \<open>
  The session a user has: the stored one, or the fresh one that the first contact
  creates (what \<open>_get_or_create_session\<close> returns).
\<close>

definition session_of :: "chatbot \<Rightarrow> string \<Rightarrow> session" where
  "session_of b user_id = fst (get_or_create_session user_id b)"

text \<open>The product that \<open>add_product_to_cart\<close> picks for a session.\<close>

definition resolve :: "int option \<Rightarrow> session \<Rightarrow> product option" where
  "resolve product_id s =
     (case product_id of
        Some i \<Rightarrow> if i \<noteq> 0 then find_product_by_id i else last_product s
      | None \<Rightarrow> last_product s)"

text \<open>
  A message that selects a product: an add-by-id button, or a text that the dispatcher
  routes to the product search.
\<close>

definition product_interaction :: "string \<Rightarrow> bool" where
  "product_interaction m =
     (if py_startswith m ''btn_'' then py_startswith m ''btn_add_''
      else \<not> is_add_to_cart_intent (py_strip (py_lower m))
           \<and> is_product_search (py_strip (py_lower m)))"

text \<open>The invariant of the store: every last product that is set is a catalog product.\<close>

definition last_in_catalog :: "chatbot \<Rightarrow> bool" where
  "last_in_catalog b =
     (\<forall>user_id p. last_product (session_of b user_id) = Some p \<longrightarrow> p \<in> set AVAILABLE_PRODUCTS)"

text \<open>No user has selected a product.\<close>

definition none_selected :: "chatbot \<Rightarrow> bool" where
  "none_selected b = (\<forall>user_id. last_product (session_of b user_id) = None)"

text \<open>The elements of a list in the order of their first occurrence, each once.\<close>

fun first_occ :: "'a list \<Rightarrow> 'a list" where
  "first_occ [] = []"
| "first_occ (x # xs) = x # removeAll x (first_occ xs)"

text \<open>
  Grouping as the specification words it: one group per product name, in the order in
  which the names first occur in the cart; a group carries its name, its first entry
  and the number of its entries.
\<close>

definition entries_named :: "string \<Rightarrow> product list \<Rightarrow> product list" where
  "entries_named n c = filter (\<lambda>item. p_name item = n) c"

definition group_of :: "product list \<Rightarrow> string \<Rightarrow> string \<times> product \<times> nat" where
  "group_of c n = (n, hd (entries_named n c), length (entries_named n c))"



section \<open>Sessions: basic facts\<close>

lemma session_of_eq: "session_of b a = (case b a of None \<Rightarrow> new_session | Some s \<Rightarrow> s)"
  by (simp add: session_of_def get_or_create_session_def split: option.splits)

lemma goc_eq: "get_or_create_session a b = (session_of b a, b(a \<mapsto> session_of b a))"
  by (auto simp: session_of_def get_or_create_session_def split: option.splits)

lemma session_of_upd_same [simp]: "session_of (b(a \<mapsto> s)) a = s"
  by (simp add: session_of_eq)

lemma session_of_upd_other [simp]: "a' \<noteq> a \<Longrightarrow> session_of (b(a \<mapsto> s)) a' = session_of b a'"
  by (simp add: session_of_eq)

lemma find_last_eq:
  "find_last_selected_product a b = (last_product (session_of b a), b(a \<mapsto> session_of b a))"
  by (simp add: find_last_selected_product_def goc_eq)

lemma add_eq:
  "add_product_to_cart a pid b =
     (case resolve pid (session_of b a) of
        None \<Rightarrow> (no_product_reply, b(a \<mapsto> session_of b a))
      | Some p \<Rightarrow> (added_reply p,
                   b(a \<mapsto> (session_of b a)\<lparr>cart := cart (session_of b a) @ [p], last_product := Some p\<rparr>)))"
  by (simp add: add_product_to_cart_def goc_eq find_last_eq resolve_def split: option.splits)

lemma clear_eq:
  "snd (clear_cart a b) = b(a \<mapsto> (session_of b a)\<lparr>cart := []\<rparr>)"
  by (simp add: clear_cart_def goc_eq)

lemma checkout_eq:
  "process_checkout a b =
     (if cart (session_of b a) = [] then (checkout_empty_reply, b(a \<mapsto> session_of b a))
      else (checkout_done_reply (py_sum (map p_price (cart (session_of b a)))),
            b(a \<mapsto> (session_of b a)\<lparr>cart := [], last_product := None\<rparr>)))"
  by (simp add: process_checkout_def goc_eq Let_def)

lemma view_snd: "snd (send_cart_confirmation_buttons a b) = b(a \<mapsto> session_of b a)"
  by (simp add: send_cart_confirmation_buttons_def goc_eq Let_def)

lemma select_eq:
  "snd (handle_product_selection a q b) =
     (case find_product_by_name q of
        Some p \<Rightarrow> b(a \<mapsto> (session_of b a)\<lparr>last_product := Some p\<rparr>)
      | None \<Rightarrow> b(a \<mapsto> session_of b a))"
  by (simp add: handle_product_selection_def goc_eq split: option.splits)

lemma show_snd: "snd (show_products a b) = b"
  by (simp add: show_products_def)

lemma other_add: "a' \<noteq> a \<Longrightarrow> snd (add_product_to_cart a pid b) a' = b a'"
  by (simp add: add_eq split: option.splits)

lemma other_clear: "a' \<noteq> a \<Longrightarrow> snd (clear_cart a b) a' = b a'"
  by (simp add: clear_eq)

lemma other_checkout: "a' \<noteq> a \<Longrightarrow> snd (process_checkout a b) a' = b a'"
  by (simp add: checkout_eq)

lemma other_view: "a' \<noteq> a \<Longrightarrow> snd (send_cart_confirmation_buttons a b) a' = b a'"
  by (simp add: view_snd)

lemma other_select: "a' \<noteq> a \<Longrightarrow> snd (handle_product_selection a q b) a' = b a'"
  by (simp add: select_eq split: option.splits)

lemma other_find_last: "a' \<noteq> a \<Longrightarrow> snd (find_last_selected_product a b) a' = b a'"
  by (simp add: find_last_eq)

lemma button_eq:
  "handle_button_press a d b =
     (let b1 = b(a \<mapsto> session_of b a)
      in if py_startswith d ''btn_add_'' then
           (case py_int (last (py_split CHR ''_'' d)) of
              Some i \<Rightarrow> add_product_to_cart a (Some i) b1
            | None \<Rightarrow> (button_error_reply, b1))
         else if d = ''btn_view_cart'' then send_cart_confirmation_buttons a b1
         else if d = ''btn_browse'' then show_products a b1
         else if d = ''btn_clear_cart'' then clear_cart a b1
         else if d = ''btn_checkout'' then process_checkout a b1
         else (button_unknown_reply, b1))"
  by (simp add: handle_button_press_def goc_eq Let_def)

lemma message_eq:
  "handle_message a m b =
     (let b1 = b(a \<mapsto> session_of b a); ml = py_strip (py_lower m)
      in if py_startswith m ''btn_'' then handle_button_press a m b1
         else if is_add_to_cart_intent ml then add_product_to_cart a None b1
         else if is_product_search ml then handle_product_selection a ml b1
         else if is_view_cart_intent ml then send_cart_confirmation_buttons a b1
         else (unknown_reply, b1))"
  by (simp add: handle_message_def goc_eq Let_def)

lemma other_button: "a' \<noteq> a \<Longrightarrow> snd (handle_button_press a d b) a' = b a'"
  by (simp add: button_eq Let_def other_add other_view other_clear other_checkout show_snd
      split: option.splits)

lemma other_message: "a' \<noteq> a \<Longrightarrow> snd (handle_message a m b) a' = b a'"
  by (simp add: message_eq Let_def other_add other_view other_button other_select)

section \<open>Session isolation\<close>

text \<open>
  Claim C8. For two distinct users A and B, no operation invoked for A (the message
  handler, adding to the cart, clearing the cart, checkout, the cart summary) changes
  what the store holds for B: B's session, with its cart and last product, is the same
  afterwards, and a B without a session still has none.
\<close>

theorem session_isolation:
  assumes "user_b \<noteq> user_a"
  shows "snd (handle_message user_a m b) user_b = b user_b
       \<and> snd (add_product_to_cart user_a pid b) user_b = b user_b
       \<and> snd (clear_cart user_a b) user_b = b user_b
       \<and> snd (process_checkout user_a b) user_b = b user_b
       \<and> snd (send_cart_confirmation_buttons user_a b) user_b = b user_b"
  using assms by (simp add: other_message other_add other_clear other_checkout other_view)

theorem session_isolation_witness:
  "''bob'' \<noteq> ''ana''
   \<and> snd (handle_message ''ana'' ''btn_add_2'' (init(''bob'' \<mapsto> new_session\<lparr>cart := AVAILABLE_PRODUCTS\<rparr>))) ''bob''
       = Some (new_session\<lparr>cart := AVAILABLE_PRODUCTS\<rparr>)
   \<and> snd (process_checkout ''ana'' (init(''bob'' \<mapsto> new_session\<lparr>cart := AVAILABLE_PRODUCTS\<rparr>))) ''bob''
       = Some (new_session\<lparr>cart := AVAILABLE_PRODUCTS\<rparr>)"
  using session_isolation [of "''bob''" "''ana''" "''btn_add_2''"
      "init(''bob'' \<mapsto> new_session\<lparr>cart := AVAILABLE_PRODUCTS\<rparr>)"]
  by simp

section \<open>Strings: prefixes and occurrences\<close>

lemma startswith_append: "py_startswith (p @ s) p"
  by (induction p) auto

lemma startswith_split: "py_startswith s (p @ q) \<Longrightarrow> py_startswith s p"
  by (induction s p rule: py_startswith.induct) auto

lemma startswith_iff: "py_startswith s p \<longleftrightarrow> (\<exists>t. s = p @ t)"
  by (induction s p rule: py_startswith.induct) auto

lemma py_in_iff: "py_in p s \<longleftrightarrow> (\<exists>xs ys. s = xs @ p @ ys)"
proof (induction s)
  case Nil
  then show ?case by auto
next
  case (Cons c cs)
  show ?case
  proof
    assume "py_in p (c # cs)"
    then consider "py_startswith (c # cs) p" | "py_in p cs" by auto
    then show "\<exists>xs ys. c # cs = xs @ p @ ys"
    proof cases
      case 1
      then obtain t where "c # cs = p @ t" by (auto simp: startswith_iff)
      then have "c # cs = [] @ p @ t" by simp
      then show ?thesis by blast
    next
      case 2
      then obtain xs ys where "cs = xs @ p @ ys" using Cons.IH by blast
      then have "c # cs = (c # xs) @ p @ ys" by simp
      then show ?thesis by blast
    qed
  next
    assume "\<exists>xs ys. c # cs = xs @ p @ ys"
    then obtain xs ys where e: "c # cs = xs @ p @ ys" by blast
    show "py_in p (c # cs)"
    proof (cases xs)
      case Nil
      then have "py_startswith (c # cs) p" using e by (auto simp: startswith_iff)
      then show ?thesis by simp
    next
      case (Cons x xs')
      then have "cs = xs' @ p @ ys" using e by simp
      then have "py_in p cs" using Cons.IH by blast
      then show ?thesis by simp
    qed
  qed
qed

lemma py_in_append: "py_in p (xs @ p @ ys)"
  by (auto simp: py_in_iff)

lemma added_not_no_product: "added_reply p \<noteq> no_product_reply"
  by (simp add: added_reply_def no_product_reply_def)

lemma done_not_empty: "checkout_done_reply t \<noteq> checkout_empty_reply"
  by (simp add: checkout_done_reply_def checkout_empty_reply_def)

section \<open>Checkout\<close>

text \<open>
  Claim C3. Checkout answers with the failure reply (no checkout with an empty cart)
  exactly when the user's cart is empty, and then the session is as before: the cart
  still empty, the last product untouched. With a non-empty cart it answers with the
  success reply, which reports as total paid the sum of the prices of all cart entries
  (Python's \<open>sum\<close>, written with two decimals); afterwards the cart is empty and the
  last product is none.
\<close>

theorem checkout_contract:
  "(fst (process_checkout a b) = checkout_empty_reply \<longleftrightarrow> cart (session_of b a) = [])
   \<and> (cart (session_of b a) = [] \<longrightarrow>
        session_of (snd (process_checkout a b)) a = session_of b a)
   \<and> (cart (session_of b a) \<noteq> [] \<longrightarrow>
        fst (process_checkout a b)
          = checkout_done_reply (py_sum (map p_price (cart (session_of b a))))
        \<and> py_in (u ''Total pagado: $'' @ u (fmt2 (py_sum (map p_price (cart (session_of b a))))))
             (response (fst (process_checkout a b)))
        \<and> cart (session_of (snd (process_checkout a b)) a) = []
        \<and> last_product (session_of (snd (process_checkout a b)) a) = None)"
proof -
  have "py_in (u ''Total pagado: $'' @ u (fmt2 t)) (response (checkout_done_reply t))" for t
  proof -
    have "response (checkout_done_reply t)
        = ([0x2705, 0x20, 0xA1] @ u ''Compra realizada exitosamente!'' @ [10])
          @ (u ''Total pagado: $'' @ u (fmt2 t)) @ ([10, 0xA1] @ u ''Gracias por tu compra!'')"
      by (simp add: checkout_done_reply_def)
    then show ?thesis by (simp only: py_in_append)
  qed
  then show ?thesis
    by (simp add: checkout_eq done_not_empty)
qed

theorem checkout_contract_witness:
  "cart (session_of (run init [(''u'', ''btn_add_1''), (''u'', ''btn_add_2'')]) ''u'') \<noteq> []
   \<and> py_in (u ''Total pagado: $1029.98'')
        (response (fst (process_checkout ''u'' (run init [(''u'', ''btn_add_1''), (''u'', ''btn_add_2'')]))))
   \<and> cart (session_of (snd (process_checkout ''u''
              (run init [(''u'', ''btn_add_1''), (''u'', ''btn_add_2'')]))) ''u'') = []
   \<and> cart (session_of init ''u'') = []
   \<and> fst (process_checkout ''u'' init) = checkout_empty_reply"
proof -
  let ?b = "run init [(''u'', ''btn_add_1''), (''u'', ''btn_add_2'')]"
  have h: "cart (session_of ?b ''u'') \<noteq> []"
    by code_simp
  have t: "u ''Total pagado: $'' @ u (fmt2 (py_sum (map p_price (cart (session_of ?b ''u'')))))
         = u ''Total pagado: $1029.98''"
    by code_simp
  have e: "cart (session_of init ''u'') = []"
    by code_simp
  from checkout_contract [of "''u''" ?b] h
  have "py_in (u ''Total pagado: $'' @ u (fmt2 (py_sum (map p_price (cart (session_of ?b ''u''))))))
          (response (fst (process_checkout ''u'' ?b)))
      \<and> cart (session_of (snd (process_checkout ''u'' ?b)) ''u'') = []"
    by blast
  then have "py_in (u ''Total pagado: $1029.98'') (response (fst (process_checkout ''u'' ?b)))
      \<and> cart (session_of (snd (process_checkout ''u'' ?b)) ''u'') = []"
    unfolding t .
  moreover from checkout_contract [of "''u''" init] e
  have "fst (process_checkout ''u'' init) = checkout_empty_reply"
    by blast
  ultimately show ?thesis using h e by blast
qed

section \<open>Clearing the cart keeps the selection\<close>

text \<open>
  Claim C10. Clearing the cart empties the cart and leaves the last product as it was.
  So for a user whose last product is set, an add-to-cart text command right after the
  clearing succeeds: it answers with the success reply for that product, not with the
  "no product selected" reply, and the cart then holds exactly that product.
\<close>

theorem clear_then_add:
  "last_product (session_of (snd (clear_cart a b)) a) = last_product (session_of b a)
   \<and> cart (session_of (snd (clear_cart a b)) a) = []
   \<and> (last_product (session_of b a) = Some p \<and> \<not> py_startswith m ''btn_''
        \<and> is_add_to_cart_intent (py_strip (py_lower m)) \<longrightarrow>
        fst (handle_message a m (snd (clear_cart a b))) = added_reply p
        \<and> fst (handle_message a m (snd (clear_cart a b))) \<noteq> no_product_reply
        \<and> cart (session_of (snd (handle_message a m (snd (clear_cart a b)))) a) = [p]
        \<and> last_product (session_of (snd (handle_message a m (snd (clear_cart a b)))) a) = Some p)"
  by (simp add: clear_eq message_eq add_eq resolve_def added_not_no_product Let_def)

theorem clear_then_add_witness:
  "last_product (session_of (run init [(''u'', ''laptop''), (''u'', ''agregar'')]) ''u'')
     = Some (hd AVAILABLE_PRODUCTS)
   \<and> cart (session_of (run init [(''u'', ''laptop''), (''u'', ''agregar'')]) ''u'') = [hd AVAILABLE_PRODUCTS]
   \<and> \<not> py_startswith ''agregar al carrito'' ''btn_''
   \<and> is_add_to_cart_intent (py_strip (py_lower ''agregar al carrito''))
   \<and> cart (session_of (snd (clear_cart ''u'' (run init [(''u'', ''laptop''), (''u'', ''agregar'')]))) ''u'') = []
   \<and> fst (handle_message ''u'' ''agregar al carrito''
            (snd (clear_cart ''u'' (run init [(''u'', ''laptop''), (''u'', ''agregar'')]))))
       = added_reply (hd AVAILABLE_PRODUCTS)
   \<and> cart (session_of (snd (handle_message ''u'' ''agregar al carrito''
            (snd (clear_cart ''u'' (run init [(''u'', ''laptop''), (''u'', ''agregar'')]))))) ''u'')
       = [hd AVAILABLE_PRODUCTS]"
proof -
  let ?b = "run init [(''u'', ''laptop''), (''u'', ''agregar'')]"
  have h1: "last_product (session_of ?b ''u'') = Some (hd AVAILABLE_PRODUCTS)" by code_simp
  have h2: "cart (session_of ?b ''u'') = [hd AVAILABLE_PRODUCTS]" by code_simp
  have h3: "\<not> py_startswith ''agregar al carrito'' ''btn_''" by simp
  have h4: "is_add_to_cart_intent (py_strip (py_lower ''agregar al carrito''))" by code_simp
  from clear_then_add [of "''u''" ?b "hd AVAILABLE_PRODUCTS" "''agregar al carrito''"] h1 h2 h3 h4
  show ?thesis by blast
qed

lemma btn_add_is_btn: "py_startswith m ''btn_add_'' \<Longrightarrow> py_startswith m ''btn_''"
  using startswith_split [of m "''btn_''" "''add_''"] by simp

section \<open>Malformed and unknown buttons\<close>



section \<open>Lowercasing and trimming keep a trigger\<close>

lemma py_lower_keeps:
  assumes "py_in p s"
  shows "py_in (py_lower p) (py_lower s)"
proof -
  obtain xs ys where "s = xs @ p @ ys" using assms by (auto simp: py_in_iff)
  then have "py_lower s = py_lower xs @ py_lower p @ py_lower ys" by (simp add: py_lower_def)
  then show ?thesis by (simp only: py_in_append)
qed

lemma dropWhile_keeps:
  "p \<noteq> [] \<Longrightarrow> \<not> P (hd p) \<Longrightarrow> \<exists>xs'. dropWhile P (xs @ p @ ys) = xs' @ p @ ys"
proof (induction xs)
  case Nil
  then have "dropWhile P (p @ ys) = [] @ p @ ys" by (cases p) auto
  then show ?case by (metis append_Nil)
next
  case (Cons x xs)
  show ?case
  proof (cases "P x")
    case True
    then show ?thesis using Cons by simp
  next
    case False
    then have "dropWhile P ((x # xs) @ p @ ys) = (x # xs) @ p @ ys" by simp
    then show ?thesis by blast
  qed
qed

lemma py_strip_keeps:
  assumes "p \<noteq> []" "\<not> is_space (hd p)" "\<not> is_space (last p)" "py_in p s"
  shows "py_in p (py_strip s)"
proof -
  obtain xs ys where "s = xs @ p @ ys" using assms(4) by (auto simp: py_in_iff)
  then obtain xs' where 1: "dropWhile is_space s = xs' @ p @ ys"
    using dropWhile_keeps [of p is_space xs ys] assms(1,2) by blast
  have "rev p \<noteq> []" "\<not> is_space (hd (rev p))" using assms(1,3) by (simp_all add: hd_rev)
  then obtain zs where "dropWhile is_space (rev ys @ rev p @ rev xs') = zs @ rev p @ rev xs'"
    using dropWhile_keeps [of "rev p" is_space "rev ys" "rev xs'"] by blast
  then have "py_strip s = xs' @ p @ rev zs" using 1 by (simp add: py_strip_def)
  then show ?thesis by (simp add: py_in_append)
qed

lemma add_patterns_ends:
  "t \<in> set add_patterns \<Longrightarrow> t \<noteq> [] \<and> \<not> is_space (hd t) \<and> \<not> is_space (last t)"
  by (auto simp: add_patterns_def is_space_def)

lemma trigger_is_add_intent:
  assumes "t \<in> set add_patterns" "py_in t (py_lower m)"
  shows "is_add_to_cart_intent (py_strip (py_lower m))"
proof -
  have "py_in t (py_strip (py_lower m))"
    using add_patterns_ends [OF assms(1)] assms(2) by (simp add: py_strip_keeps)
  then show ?thesis using assms(1) by (auto simp: is_add_to_cart_intent_def list_ex_iff)
qed

section \<open>Routing order of the dispatcher\<close>

text \<open>
  Claim C5. For a message that is not a button callback, the lowercased and trimmed
  message is tested against add-to-cart, then product search, then view-cart, and the
  first predicate that holds decides the route; with none the reply is "not understood".
  In particular a message that contains an add trigger such as "agregar" (in any
  letter case) goes to add-to-cart even when it also contains a product name.
\<close>

theorem routing_precedence:
  assumes "\<not> py_startswith m ''btn_''"
  shows "(is_add_to_cart_intent (py_strip (py_lower m)) \<longrightarrow>
            handle_message a m b = add_product_to_cart a None (snd (get_or_create_session a b)))
       \<and> (\<not> is_add_to_cart_intent (py_strip (py_lower m))
            \<and> is_product_search (py_strip (py_lower m)) \<longrightarrow>
            handle_message a m b
              = handle_product_selection a (py_strip (py_lower m)) (snd (get_or_create_session a b)))
       \<and> (\<not> is_add_to_cart_intent (py_strip (py_lower m))
            \<and> \<not> is_product_search (py_strip (py_lower m))
            \<and> is_view_cart_intent (py_strip (py_lower m)) \<longrightarrow>
            handle_message a m b
              = send_cart_confirmation_buttons a (snd (get_or_create_session a b)))
       \<and> (\<not> is_add_to_cart_intent (py_strip (py_lower m))
            \<and> \<not> is_product_search (py_strip (py_lower m))
            \<and> \<not> is_view_cart_intent (py_strip (py_lower m)) \<longrightarrow>
            handle_message a m b = (unknown_reply, snd (get_or_create_session a b)))
       \<and> ((\<exists>t \<in> set add_patterns. py_in t (py_lower m)) \<longrightarrow>
            handle_message a m b = add_product_to_cart a None (snd (get_or_create_session a b)))"
  using assms trigger_is_add_intent [of _ m]
  by (auto simp: message_eq goc_eq Let_def)

theorem routing_precedence_witness:
  "\<not> py_startswith ''Agregar Laptop'' ''btn_''
   \<and> is_product_search (py_strip (py_lower ''Agregar Laptop''))
   \<and> is_add_to_cart_intent (py_strip (py_lower ''Agregar Laptop''))
   \<and> handle_message ''u'' ''Agregar Laptop'' (run init [(''u'', ''mouse'')])
       = add_product_to_cart ''u'' None
           (snd (get_or_create_session ''u'' (run init [(''u'', ''mouse'')])))
   \<and> fst (add_product_to_cart ''u'' None
             (snd (get_or_create_session ''u'' (run init [(''u'', ''mouse'')]))))
       = added_reply (AVAILABLE_PRODUCTS ! 1)"
proof -
  have h: "\<not> py_startswith ''Agregar Laptop'' ''btn_''"
    by simp
  have s: "is_product_search (py_strip (py_lower ''Agregar Laptop''))"
    by code_simp
  have i: "is_add_to_cart_intent (py_strip (py_lower ''Agregar Laptop''))"
    by code_simp
  have r: "fst (add_product_to_cart ''u'' None
             (snd (get_or_create_session ''u'' (run init [(''u'', ''mouse'')]))))
         = added_reply (AVAILABLE_PRODUCTS ! 1)"
    by code_simp
  from routing_precedence [OF h, of "''u''" "run init [(''u'', ''mouse'')]"] i h s r
  show ?thesis by blast
qed

section \<open>The callbacks of the catalog products\<close>

lemma catalog_ids:
  "p \<in> set AVAILABLE_PRODUCTS \<Longrightarrow> p_id p \<noteq> 0 \<and> find_product_by_id (p_id p) = Some p"
  by (auto simp: AVAILABLE_PRODUCTS_def find_product_by_id_def)

lemma catalog_callback_int:
  "p \<in> set AVAILABLE_PRODUCTS \<Longrightarrow>
     py_int (last (py_split CHR ''_'' (''btn_add_'' @ py_str (p_id p)))) = Some (p_id p)"
proof -
  have "py_int (last (py_split CHR ''_'' (''btn_add_'' @ py_str 1))) = Some 1"
       "py_int (last (py_split CHR ''_'' (''btn_add_'' @ py_str 2))) = Some 2"
       "py_int (last (py_split CHR ''_'' (''btn_add_'' @ py_str 3))) = Some 3"
       "py_int (last (py_split CHR ''_'' (''btn_add_'' @ py_str 4))) = Some 4"
    by code_simp+
  then show "p \<in> set AVAILABLE_PRODUCTS \<Longrightarrow> ?thesis"
    by (auto simp: AVAILABLE_PRODUCTS_def)
qed

lemma callback_prefix:
  "py_startswith (''btn_add_'' @ s) ''btn_add_''" "py_startswith (''btn_add_'' @ s) ''btn_''"
  by simp_all

lemma catalog_button:
  assumes "p \<in> set AVAILABLE_PRODUCTS"
  shows "handle_message a (''btn_add_'' @ py_str (p_id p)) b
       = (added_reply p,
          b(a \<mapsto> (session_of b a)\<lparr>cart := cart (session_of b a) @ [p], last_product := Some p\<rparr>))"
  using catalog_ids [OF assms] catalog_callback_int [OF assms] callback_prefix [of "py_str (p_id p)"]
  by (simp add: message_eq button_eq add_eq resolve_def Let_def)

lemma text_add:
  assumes "\<not> py_startswith m ''btn_''" "is_add_to_cart_intent (py_strip (py_lower m))"
    "last_product (session_of b a) = Some p"
  shows "handle_message a m b
       = (added_reply p,
          b(a \<mapsto> (session_of b a)\<lparr>cart := cart (session_of b a) @ [p], last_product := Some p\<rparr>))"
  using assms by (simp add: message_eq add_eq resolve_def Let_def)

section \<open>The two ways to add\<close>

text \<open>
  Claim C1. For a catalog product \<open>p\<close> and a user whose last product is \<open>p\<close>, a text
  message with the add-to-cart intent and the button callback \<open>btn_add_<id of p>\<close>,
  handled from the same state, return the same response text and the same buttons; both
  go through \<open>add_product_to_cart\<close>, and they leave the same state.
\<close>

theorem add_path_equivalence:
  assumes "p \<in> set AVAILABLE_PRODUCTS" "last_product (session_of b a) = Some p"
    "\<not> py_startswith m ''btn_''" "is_add_to_cart_intent (py_strip (py_lower m))"
  shows "response (fst (handle_message a m b))
           = response (fst (handle_message a (''btn_add_'' @ py_str (p_id p)) b))
       \<and> buttons (fst (handle_message a m b))
           = buttons (fst (handle_message a (''btn_add_'' @ py_str (p_id p)) b))
       \<and> handle_message a m b = add_product_to_cart a None (snd (get_or_create_session a b))
       \<and> handle_message a (''btn_add_'' @ py_str (p_id p)) b
           = add_product_to_cart a (Some (p_id p)) (snd (get_or_create_session a b))
       \<and> fst (handle_message a m b) = added_reply p
       \<and> snd (handle_message a m b) = snd (handle_message a (''btn_add_'' @ py_str (p_id p)) b)"
proof -
  have B: "handle_message a (''btn_add_'' @ py_str (p_id p)) b
         = (added_reply p,
            b(a \<mapsto> (session_of b a)\<lparr>cart := cart (session_of b a) @ [p], last_product := Some p\<rparr>))"
    by (rule catalog_button [OF assms(1)])
  have T: "handle_message a m b
         = (added_reply p,
            b(a \<mapsto> (session_of b a)\<lparr>cart := cart (session_of b a) @ [p], last_product := Some p\<rparr>))"
    by (rule text_add [OF assms(3,4,2)])
  show ?thesis
    unfolding B T using catalog_ids [OF assms(1)]
    by (simp add: goc_eq add_eq resolve_def assms(2))
qed

theorem add_path_equivalence_witness:
  "hd AVAILABLE_PRODUCTS \<in> set AVAILABLE_PRODUCTS
   \<and> last_product (session_of (run init [(''u'', ''laptop'')]) ''u'') = Some (hd AVAILABLE_PRODUCTS)
   \<and> \<not> py_startswith ''agregar al carrito'' ''btn_''
   \<and> is_add_to_cart_intent (py_strip (py_lower ''agregar al carrito''))
   \<and> response (fst (handle_message ''u'' ''agregar al carrito'' (run init [(''u'', ''laptop'')])))
       = response (fst (handle_message ''u'' (''btn_add_'' @ py_str (p_id (hd AVAILABLE_PRODUCTS)))
                         (run init [(''u'', ''laptop'')])))
   \<and> buttons (fst (handle_message ''u'' ''agregar al carrito'' (run init [(''u'', ''laptop'')])))
       = buttons (fst (handle_message ''u'' (''btn_add_'' @ py_str (p_id (hd AVAILABLE_PRODUCTS)))
                        (run init [(''u'', ''laptop'')])))"
proof -
  have h1: "hd AVAILABLE_PRODUCTS \<in> set AVAILABLE_PRODUCTS"
    by (simp add: AVAILABLE_PRODUCTS_def)
  have h2: "last_product (session_of (run init [(''u'', ''laptop'')]) ''u'') = Some (hd AVAILABLE_PRODUCTS)"
    by code_simp
  have h3: "\<not> py_startswith ''agregar al carrito'' ''btn_''"
    by simp
  have h4: "is_add_to_cart_intent (py_strip (py_lower ''agregar al carrito''))"
    by code_simp
  from add_path_equivalence [OF h1 h2 h3 h4] h1 h2 h3 h4 show ?thesis
    by blast
qed

section \<open>No deduplication in the cart\<close>

text \<open>
  Claim C6. Adding the same catalog product twice, by text and button in any of the four
  combinations, appends two entries to the cart, each with the fields (id, name, price)
  of the product: from an empty cart the cart has length exactly 2; nothing is merged
  into a quantity. (A text command adds the last product, so the combinations that start
  with text are for a user whose last product is that product.)
\<close>

theorem cart_accumulation:
  assumes "p \<in> set AVAILABLE_PRODUCTS"
    "\<not> py_startswith t1 ''btn_''" "is_add_to_cart_intent (py_strip (py_lower t1))"
    "\<not> py_startswith t2 ''btn_''" "is_add_to_cart_intent (py_strip (py_lower t2))"
  shows "(last_product (session_of b a) = Some p \<longrightarrow>
            cart (session_of (run b [(a, t1), (a, t2)]) a) = cart (session_of b a) @ [p, p])
       \<and> (last_product (session_of b a) = Some p \<longrightarrow>
            cart (session_of (run b [(a, t1), (a, ''btn_add_'' @ py_str (p_id p))]) a)
              = cart (session_of b a) @ [p, p])
       \<and> cart (session_of (run b [(a, ''btn_add_'' @ py_str (p_id p)), (a, t2)]) a)
           = cart (session_of b a) @ [p, p]
       \<and> cart (session_of (run b [(a, ''btn_add_'' @ py_str (p_id p)),
                                  (a, ''btn_add_'' @ py_str (p_id p))]) a)
           = cart (session_of b a) @ [p, p]"
proof -
  define upd where
    "upd b' = b'(a \<mapsto> (session_of b' a)\<lparr>cart := cart (session_of b' a) @ [p], last_product := Some p\<rparr>)"
    for b'
  have B: "snd (handle_message a (''btn_add_'' @ py_str (p_id p)) b') = upd b'" for b'
    unfolding catalog_button [OF assms(1)] upd_def by simp
  have T1: "snd (handle_message a t1 b') = upd b'" if "last_product (session_of b' a) = Some p" for b'
    unfolding text_add [OF assms(2,3) that] upd_def by simp
  have T2: "snd (handle_message a t2 b') = upd b'" if "last_product (session_of b' a) = Some p" for b'
    unfolding text_add [OF assms(4,5) that] upd_def by simp
  have L: "last_product (session_of (upd b') a) = Some p" for b'
    by (simp add: upd_def)
  have C: "cart (session_of (upd (upd b)) a) = cart (session_of b a) @ [p, p]"
    by (simp add: upd_def)
  have tt: "run b [(a, t1), (a, t2)] = upd (upd b)" if "last_product (session_of b a) = Some p"
    by (simp only: run.simps T1 [OF that] T2 [OF L])
  have tb: "run b [(a, t1), (a, ''btn_add_'' @ py_str (p_id p))] = upd (upd b)"
    if "last_product (session_of b a) = Some p"
    by (simp only: run.simps T1 [OF that] B)
  have bt: "run b [(a, ''btn_add_'' @ py_str (p_id p)), (a, t2)] = upd (upd b)"
    by (simp only: run.simps B T2 [OF L])
  have bb: "run b [(a, ''btn_add_'' @ py_str (p_id p)), (a, ''btn_add_'' @ py_str (p_id p))]
          = upd (upd b)"
    by (simp only: run.simps B)
  show ?thesis
    unfolding bt bb using tt tb C by metis
qed

theorem cart_accumulation_witness:
  "hd AVAILABLE_PRODUCTS \<in> set AVAILABLE_PRODUCTS
   \<and> \<not> py_startswith ''agregar'' ''btn_'' \<and> is_add_to_cart_intent (py_strip (py_lower ''agregar''))
   \<and> \<not> py_startswith ''Add to cart'' ''btn_'' \<and> is_add_to_cart_intent (py_strip (py_lower ''Add to cart''))
   \<and> last_product (session_of (run init [(''u'', ''laptop'')]) ''u'') = Some (hd AVAILABLE_PRODUCTS)
   \<and> cart (session_of (run init [(''u'', ''laptop'')]) ''u'') = []
   \<and> cart (session_of (run (run init [(''u'', ''laptop'')])
               [(''u'', ''agregar''), (''u'', ''btn_add_'' @ py_str (p_id (hd AVAILABLE_PRODUCTS)))]) ''u'')
       = [hd AVAILABLE_PRODUCTS, hd AVAILABLE_PRODUCTS]
   \<and> cart (session_of (run (run init [(''u'', ''laptop'')])
               [(''u'', ''agregar''), (''u'', ''Add to cart'')]) ''u'')
       = [hd AVAILABLE_PRODUCTS, hd AVAILABLE_PRODUCTS]"
proof -
  let ?b = "run init [(''u'', ''laptop'')]"
  have h1: "hd AVAILABLE_PRODUCTS \<in> set AVAILABLE_PRODUCTS"
    by (simp add: AVAILABLE_PRODUCTS_def)
  have h2: "\<not> py_startswith ''agregar'' ''btn_''" by simp
  have h3: "is_add_to_cart_intent (py_strip (py_lower ''agregar''))" by code_simp
  have h4: "\<not> py_startswith ''Add to cart'' ''btn_''" by simp
  have h5: "is_add_to_cart_intent (py_strip (py_lower ''Add to cart''))" by code_simp
  have l: "last_product (session_of ?b ''u'') = Some (hd AVAILABLE_PRODUCTS)" by code_simp
  have c: "cart (session_of ?b ''u'') = []" by code_simp
  note r = cart_accumulation [OF h1 h2 h3 h4 h5, of ?b "''u''", unfolded c append_Nil]
  from r l h1 h2 h3 h4 h5 c show ?thesis by blast
qed

lemma button_add_route:
  assumes "py_startswith m ''btn_add_''" "py_int (last (py_split CHR ''_'' m)) = Some i"
  shows "handle_message a m b = add_product_to_cart a (Some i) (snd (get_or_create_session a b))"
  using assms btn_add_is_btn [OF assms(1)] by (simp add: message_eq button_eq goc_eq Let_def)

lemma add_by_nonzero_id:
  assumes "i \<noteq> 0"
  shows "find_product_by_id i = None \<Longrightarrow>
           fst (add_product_to_cart a (Some i) b) = no_product_reply
           \<and> session_of (snd (add_product_to_cart a (Some i) b)) a = session_of b a"
    and "find_product_by_id i = Some p \<Longrightarrow>
           fst (add_product_to_cart a (Some i) b) = added_reply p
           \<and> cart (session_of (snd (add_product_to_cart a (Some i) b)) a) = cart (session_of b a) @ [p]"
  using assms by (simp_all add: add_eq resolve_def)

lemma zero_state:
  "session_of (run init [(''u'', ''laptop'')]) ''u''
     = \<lparr>cart = [], last_product = Some (hd AVAILABLE_PRODUCTS), state = ''browsing''\<rparr>"
  by code_simp

section \<open>Add by id\<close>

text \<open>
  Claim C2. An id given to \<open>add_product_to_cart\<close> should be looked up in the catalog,
  and an id that no catalog product has should give the "no product selected" reply
  whatever the last product is. The id 0 breaks this: \<open>if product_id:\<close> treats 0 as
  absent. After the message "laptop", the callback \<open>btn_add_0\<close> (no catalog product
  has id 0) puts the Laptop into the cart and answers with the success reply.
\<close>

theorem add_by_id_zero:
  "find_product_by_id 0 = None
   \<and> last_product (session_of (run init [(''u'', ''laptop'')]) ''u'') = Some (hd AVAILABLE_PRODUCTS)
   \<and> fst (handle_message ''u'' ''btn_add_0'' (run init [(''u'', ''laptop'')]))
       = added_reply (hd AVAILABLE_PRODUCTS)
   \<and> fst (handle_message ''u'' ''btn_add_0'' (run init [(''u'', ''laptop'')])) \<noteq> no_product_reply
   \<and> cart (session_of (run init [(''u'', ''laptop''), (''u'', ''btn_add_0'')]) ''u'')
       = [hd AVAILABLE_PRODUCTS]"
  by code_simp

section \<open>Invariance of the catalog property\<close>

lemma session_of_upd:
  "session_of (b(a \<mapsto> s)) a' = (if a' = a then s else session_of b a')"
  by simp

lemma find_by_id_in_catalog: "find_product_by_id i = Some p \<Longrightarrow> p \<in> set AVAILABLE_PRODUCTS"
  by (auto simp: find_product_by_id_def find_Some_iff)

lemma find_by_name_in_catalog: "find_product_by_name q = Some p \<Longrightarrow> p \<in> set AVAILABLE_PRODUCTS"
  by (auto simp: find_product_by_name_def find_Some_iff)

lemma touch_in_catalog: "last_in_catalog b \<Longrightarrow> last_in_catalog (b(a \<mapsto> session_of b a))"
  by (simp add: last_in_catalog_def session_of_upd)

lemma resolve_in_catalog:
  "last_in_catalog b \<Longrightarrow> resolve pid (session_of b a) = Some p \<Longrightarrow> p \<in> set AVAILABLE_PRODUCTS"
  by (auto simp: resolve_def last_in_catalog_def find_by_id_in_catalog split: option.splits if_splits)

lemma add_in_catalog: "last_in_catalog b \<Longrightarrow> last_in_catalog (snd (add_product_to_cart a pid b))"
proof -
  assume inv: "last_in_catalog b"
  show ?thesis
  proof (cases "resolve pid (session_of b a)")
    case None
    then show ?thesis using touch_in_catalog [OF inv] by (simp add: add_eq)
  next
    case (Some p)
    then have "p \<in> set AVAILABLE_PRODUCTS" using resolve_in_catalog [OF inv] by blast
    then show ?thesis using inv Some
      by (simp add: add_eq last_in_catalog_def session_of_upd)
  qed
qed

lemma select_in_catalog:
  "last_in_catalog b \<Longrightarrow> last_in_catalog (snd (handle_product_selection a q b))"
  by (auto simp: select_eq last_in_catalog_def session_of_upd find_by_name_in_catalog
      split: option.splits)

lemma view_in_catalog:
  "last_in_catalog b \<Longrightarrow> last_in_catalog (snd (send_cart_confirmation_buttons a b))"
  by (simp add: view_snd touch_in_catalog)

lemma clear_in_catalog: "last_in_catalog b \<Longrightarrow> last_in_catalog (snd (clear_cart a b))"
  by (simp add: clear_eq last_in_catalog_def session_of_upd)

lemma checkout_in_catalog: "last_in_catalog b \<Longrightarrow> last_in_catalog (snd (process_checkout a b))"
  by (simp add: checkout_eq last_in_catalog_def session_of_upd)

lemma button_in_catalog:
  "last_in_catalog b \<Longrightarrow> last_in_catalog (snd (handle_button_press a d b))"
  using touch_in_catalog [of b a]
  by (simp add: button_eq Let_def add_in_catalog view_in_catalog clear_in_catalog
      checkout_in_catalog show_snd split: option.splits)

lemma message_in_catalog:
  "last_in_catalog b \<Longrightarrow> last_in_catalog (snd (handle_message a m b))"
  using touch_in_catalog [of b a]
  by (simp add: message_eq Let_def add_in_catalog view_in_catalog button_in_catalog
      select_in_catalog)

lemma run_in_catalog: "last_in_catalog b \<Longrightarrow> last_in_catalog (run b ms)"
  by (induction ms arbitrary: b) (auto simp: message_in_catalog)

lemma init_in_catalog: "last_in_catalog init"
  by (simp add: last_in_catalog_def session_of_eq init_def new_session_def)

lemma init_none: "none_selected init"
  by (simp add: none_selected_def session_of_eq init_def new_session_def)

lemma touch_none: "none_selected b \<Longrightarrow> none_selected (b(a \<mapsto> session_of b a))"
  by (simp add: none_selected_def session_of_upd)

lemma message_none:
  assumes "none_selected b" "\<not> product_interaction m"
  shows "none_selected (snd (handle_message a m b))"
proof (cases "py_startswith m ''btn_''")
  case True
  then have "\<not> py_startswith m ''btn_add_''" using assms(2) by (simp add: product_interaction_def)
  then show ?thesis using True assms(1) touch_none [OF assms(1), of a]
    by (simp add: message_eq button_eq Let_def view_snd show_snd clear_eq checkout_eq
        none_selected_def session_of_upd)
next
  case False
  then have "is_add_to_cart_intent (py_strip (py_lower m)) \<or> \<not> is_product_search (py_strip (py_lower m))"
    using assms(2) by (simp add: product_interaction_def)
  then show ?thesis using False assms(1) touch_none [OF assms(1), of a]
    by (auto simp: message_eq Let_def view_snd add_eq resolve_def none_selected_def session_of_upd)
qed

lemma run_none:
  "none_selected b \<Longrightarrow> list_all (\<lambda>(user_id, m). \<not> product_interaction m) ms \<Longrightarrow>
     none_selected (run b ms)"
  by (induction ms arbitrary: b) (auto simp: message_none)

section \<open>The last product is a catalog product\<close>

text \<open>
  Claim C9. In every state that a sequence of \<open>handle_message\<close> calls (of any users)
  reaches from a fresh ChatBot, a session's last product, when set, is a product of the
  catalog. On the fresh ChatBot \<open>find_last_selected_product\<close> returns none, and it
  still does after any messages none of which is a product interaction (a product
  search or an add-by-id button).
\<close>

theorem last_product_invariant:
  "(last_product (session_of (run init ms) a) = Some p \<longrightarrow> p \<in> set AVAILABLE_PRODUCTS)
   \<and> fst (find_last_selected_product a init) = None
   \<and> (list_all (\<lambda>(user_id, m). \<not> product_interaction m) ms \<longrightarrow>
        fst (find_last_selected_product a (run init ms)) = None)"
  using run_in_catalog [OF init_in_catalog, of ms] run_none [OF init_none, of ms] init_none
  by (auto simp: last_in_catalog_def none_selected_def find_last_eq)

theorem last_product_invariant_witness:
  "last_product (session_of (run init [(''u'', ''mouse''), (''v'', ''btn_add_3'')]) ''v'')
     = Some (AVAILABLE_PRODUCTS ! 2)
   \<and> AVAILABLE_PRODUCTS ! 2 \<in> set AVAILABLE_PRODUCTS
   \<and> list_all (\<lambda>(user_id, m). \<not> product_interaction m)
        [(''u'', ''hola''), (''u'', ''agregar al carrito''), (''u'', ''carrito''), (''u'', ''btn_browse'')]
   \<and> fst (find_last_selected_product ''u''
        (run init [(''u'', ''hola''), (''u'', ''agregar al carrito''), (''u'', ''carrito''),
                   (''u'', ''btn_browse'')])) = None"
proof -
  have h1: "last_product (session_of (run init [(''u'', ''mouse''), (''v'', ''btn_add_3'')]) ''v'')
     = Some (AVAILABLE_PRODUCTS ! 2)"
    by code_simp
  have h2: "list_all (\<lambda>(user_id, m). \<not> product_interaction m)
        [(''u'', ''hola''), (''u'', ''agregar al carrito''), (''u'', ''carrito''), (''u'', ''btn_browse'')]"
    by code_simp
  from last_product_invariant [of "[(''u'', ''mouse''), (''v'', ''btn_add_3'')]" "''v''" "AVAILABLE_PRODUCTS ! 2"] h1
  have a: "AVAILABLE_PRODUCTS ! 2 \<in> set AVAILABLE_PRODUCTS" by blast
  from last_product_invariant [of "[(''u'', ''hola''), (''u'', ''agregar al carrito''), (''u'', ''carrito''),
                   (''u'', ''btn_browse'')]" "''u''"] h2
  have b: "fst (find_last_selected_product ''u''
        (run init [(''u'', ''hola''), (''u'', ''agregar al carrito''), (''u'', ''carrito''),
                   (''u'', ''btn_browse'')])) = None" by blast
  from h1 h2 a b show ?thesis by blast
qed

section \<open>Grouping and formatting\<close>

lemma set_first_occ [simp]: "set (first_occ xs) = set xs"
  by (induction xs) auto

lemma distinct_first_occ [simp]: "distinct (first_occ xs)"
  by (induction xs) (auto simp: distinct_removeAll)





lemma group_of_fst [simp]: "fst (group_of c n) = n"
  by (simp add: group_of_def)












section \<open>The cart summary\<close>



lemma grouped_cart_example:
  "response (fst (send_cart_confirmation_buttons ''u''
      (run init [(''u'', ''btn_add_1''), (''u'', ''btn_add_2''), (''u'', ''btn_add_1'')])))
     = [0x1F6D2] @ u '' Tu carrito (3 items):'' @ [10, 0x2022] @ u '' Laptop x2 - $1999.98''
       @ [10, 0x2022] @ u '' Mouse - $29.99'' @ [10, 10] @ u ''Total: $2029.97''"
  by code_simp

end
